theory Spec2Isabelle
  imports Main "HOL-Library.Sublist"
begin

section \<open>Strings and paths\<close>

text \<open>
  The packaging script \<^verbatim>\<open>libexec/create_package.py\<close> is glue over string
  formatting, the file system and two external tools. Strings are \<^typ>\<open>string\<close>;
  the exceptions the script and the library calls can raise are values of
  \<open>error\<close>.
\<close>

datatype error =
    MeCabPackageException string
  | ValueError
  | FileNotFoundError
  | FileExistsError
  | NotADirectoryError
  | IsADirectoryError
  | PermissionError

text \<open>
  \<open>split_on P s\<close> cuts \<open>s\<close> at every character satisfying \<open>P\<close>, keeping empty
  pieces, as \<^verbatim>\<open>re.split\<close> with a one-character class and \<^verbatim>\<open>str.split(sep)\<close> do:
  the result always has one piece more than there are separators.
\<close>

fun split_on :: "(char \<Rightarrow> bool) \<Rightarrow> string \<Rightarrow> string list" where
  "split_on P [] = [[]]"
| "split_on P (c # cs) =
     (if P c then [] # split_on P cs
      else (case split_on P cs of [] \<Rightarrow> [[c]] | p # ps \<Rightarrow> (c # p) # ps))"



definition is_slash :: "char \<Rightarrow> bool" where
  "is_slash c \<longleftrightarrow> c = CHR ''/''"

text \<open>\<^verbatim>\<open>os.path.join(a, b)\<close> of \<^verbatim>\<open>posixpath\<close>, for two arguments.\<close>

definition path_join :: "string \<Rightarrow> string \<Rightarrow> string" where
  "path_join a b =
     (if b \<noteq> [] \<and> hd b = CHR ''/'' then b
      else if a = [] \<or> last a = CHR ''/'' then a @ b
      else a @ CHR ''/'' # b)"

text \<open>\<^verbatim>\<open>os.path.basename(p)\<close>: what follows the last slash.\<close>

definition basename :: "string \<Rightarrow> string" where
  "basename p = last (split_on is_slash p)"

section \<open>The file system and the outside world\<close>

text \<open>
  The file system is a table from resolved locations (the list of directory names
  from the root down to the entry) to what is there: a directory, or a regular
  file identified by its inode. A hard link is a second location with the same
  inode; the bytes of a file belong to the inode (\<open>data\<close>). The root directory
  (the empty location) always exists. Symbolic links are not modelled.
  \<open>spawned\<close> records every subprocess the script has started.
\<close>

datatype entry = F nat | D

record world =
  entries :: "(string list \<times> entry) list"
  data :: "(nat \<times> string) list"
  cwd :: "string list"
  spawned :: "(string list \<times> string option) list"

text \<open>
  A call returns a value, raises, or never comes back (the wait loop of
  \<open>run_command\<close> on a process that never ends). Side effects made before an
  exception stay: the world is returned in every case.
\<close>

datatype 'a outcome = Returned 'a | Raised error | Blocked

type_synonym 'a prog = "world \<Rightarrow> 'a outcome \<times> world"

definition ret :: "'a \<Rightarrow> 'a prog" where
  "ret x w = (Returned x, w)"

definition raise :: "error \<Rightarrow> 'a prog" where
  "raise e w = (Raised e, w)"

definition seq :: "'a prog \<Rightarrow> ('a \<Rightarrow> 'b prog) \<Rightarrow> 'b prog" where
  "seq m f w =
     (case m w of
        (Returned x, w') \<Rightarrow> f x w'
      | (Raised e, w') \<Rightarrow> (Raised e, w')
      | (Blocked, w') \<Rightarrow> (Blocked, w'))"

definition node_at :: "world \<Rightarrow> string list \<Rightarrow> entry option" where
  "node_at w q = (if q = [] then Some D else map_of (entries w) q)"

definition is_dir :: "world \<Rightarrow> string list \<Rightarrow> bool" where
  "is_dir w q \<longleftrightarrow> node_at w q = Some D"

text \<open>
  Path resolution walks the components of a path string from the root (absolute
  path) or the working directory: an empty component or \<open>.\<close> stays where it is
  and \<open>..\<close> goes to the parent, both only from an existing directory. The
  empty path resolves to nothing.
\<close>

fun walk :: "world \<Rightarrow> string list \<Rightarrow> string list \<Rightarrow> string list option" where
  "walk w cur [] = Some cur"
| "walk w cur (c # cs) =
     (if c = [] \<or> c = ''.'' then (if is_dir w cur then walk w cur cs else None)
      else if c = ''..'' then (if is_dir w cur then walk w (butlast cur) cs else None)
      else walk w (cur @ [c]) cs)"

definition resolve :: "world \<Rightarrow> string \<Rightarrow> string list option" where
  "resolve w p =
     (if p = [] then None
      else walk w (if hd p = CHR ''/'' then [] else cwd w) (split_on is_slash p))"

definition add_entry :: "string list \<Rightarrow> entry \<Rightarrow> world \<Rightarrow> world" where
  "add_entry q e w = w\<lparr>entries := entries w @ [(q, e)]\<rparr>"

text \<open>\<^verbatim>\<open>os.path.isfile\<close>: true for an existing regular file, false otherwise; never raises.\<close>

definition isfile :: "world \<Rightarrow> string \<Rightarrow> bool" where
  "isfile w p =
     (case resolve w p of
        None \<Rightarrow> False
      | Some q \<Rightarrow> (case node_at w q of Some (F i) \<Rightarrow> True | _ \<Rightarrow> False))"

definition os_path_isfile :: "string \<Rightarrow> bool prog" where
  "os_path_isfile p w = (Returned (isfile w p), w)"

definition children :: "world \<Rightarrow> string list \<Rightarrow> string list" where
  "children w q = map (\<lambda>(k, e). last k) (filter (\<lambda>(k, e). k \<noteq> [] \<and> butlast k = q) (entries w))"

definition os_listdir :: "string \<Rightarrow> string list prog" where
  "os_listdir p w =
     (case resolve w p of
        None \<Rightarrow> (Raised FileNotFoundError, w)
      | Some q \<Rightarrow>
          (case node_at w q of
             None \<Rightarrow> (Raised FileNotFoundError, w)
           | Some (F i) \<Rightarrow> (Raised NotADirectoryError, w)
           | Some D \<Rightarrow> (Returned (children w q), w)))"

text \<open>\<^verbatim>\<open>mkdir(2)\<close> accepts trailing slashes on the name of the directory to create.\<close>

definition strip_trailing_slashes :: "string \<Rightarrow> string" where
  "strip_trailing_slashes p =
     (let q = rev (dropWhile is_slash (rev p)) in if q = [] \<and> p \<noteq> [] then ''/'' else q)"

definition os_mkdir :: "string \<Rightarrow> unit prog" where
  "os_mkdir p w =
     (case resolve w (strip_trailing_slashes p) of
        None \<Rightarrow> (Raised FileNotFoundError, w)
      | Some q \<Rightarrow>
          if node_at w q \<noteq> None then (Raised FileExistsError, w)
          else (case node_at w (butlast q) of
                  None \<Rightarrow> (Raised FileNotFoundError, w)
                | Some (F i) \<Rightarrow> (Raised NotADirectoryError, w)
                | Some D \<Rightarrow> (Returned (), add_entry q D w)))"

text \<open>\<^verbatim>\<open>os.link(src, dst)\<close>: a new name \<open>dst\<close> for the inode of the regular file \<open>src\<close>.\<close>

definition os_link :: "string \<Rightarrow> string \<Rightarrow> unit prog" where
  "os_link src dst w =
     (case resolve w src of
        None \<Rightarrow> (Raised FileNotFoundError, w)
      | Some s \<Rightarrow>
          (case node_at w s of
             None \<Rightarrow> (Raised FileNotFoundError, w)
           | Some D \<Rightarrow> (Raised PermissionError, w)
           | Some (F i) \<Rightarrow>
               (case resolve w dst of
                  None \<Rightarrow> (Raised FileNotFoundError, w)
                | Some d \<Rightarrow>
                    if node_at w d \<noteq> None then (Raised FileExistsError, w)
                    else (case node_at w (butlast d) of
                            None \<Rightarrow> (Raised FileNotFoundError, w)
                          | Some (F j) \<Rightarrow> (Raised NotADirectoryError, w)
                          | Some D \<Rightarrow> (Returned (), add_entry d (F i) w)))))"

definition inodes_in_use :: "world \<Rightarrow> nat list" where
  "inodes_in_use w =
     concat (map (\<lambda>(k, e). case e of F i \<Rightarrow> [i] | D \<Rightarrow> []) (entries w)) @ map fst (data w)"

definition new_inode :: "world \<Rightarrow> nat" where
  "new_inode w = Suc (fold max (inodes_in_use w) 0)"

text \<open>
  \<^verbatim>\<open>with open(path, 'w') as f: f.write(text)\<close>: an existing regular file is
  overwritten in place (same inode), a missing one is created with a new inode.
\<close>

definition write_file :: "string \<Rightarrow> string \<Rightarrow> unit prog" where
  "write_file path text w =
     (case resolve w path of
        None \<Rightarrow> (Raised FileNotFoundError, w)
      | Some q \<Rightarrow>
          (case node_at w q of
             Some D \<Rightarrow> (Raised IsADirectoryError, w)
           | Some (F i) \<Rightarrow> (Returned (), w\<lparr>data := (i, text) # data w\<rparr>)
           | None \<Rightarrow>
               (case node_at w (butlast q) of
                  None \<Rightarrow> (Raised FileNotFoundError, w)
                | Some (F j) \<Rightarrow> (Raised NotADirectoryError, w)
                | Some D \<Rightarrow>
                    (Returned (), (add_entry q (F (new_inode w)) w)
                                    \<lparr>data := (new_inode w, text) # data w\<rparr>))))"

text \<open>
  \<^verbatim>\<open>shutil.rmtree(path)\<close>: the directory and everything below it goes; anything
  else raises. (On the root it empties the file system and then fails.)
\<close>

definition remove_subtree :: "string list \<Rightarrow> world \<Rightarrow> world" where
  "remove_subtree q w = w\<lparr>entries := filter (\<lambda>(k, e). \<not> prefix q k) (entries w)\<rparr>"

definition shutil_rmtree :: "string \<Rightarrow> unit prog" where
  "shutil_rmtree path w =
     (case resolve w path of
        None \<Rightarrow> (Raised FileNotFoundError, w)
      | Some q \<Rightarrow>
          (case node_at w q of
             None \<Rightarrow> (Raised FileNotFoundError, w)
           | Some (F i) \<Rightarrow> (Raised NotADirectoryError, w)
           | Some D \<Rightarrow>
               if q = [] then (Raised PermissionError, remove_subtree q w)
               else (Returned (), remove_subtree q w)))"

text \<open>
  \<^verbatim>\<open>pathlib.Path(path).mkdir(parents=True, exist_ok=True)\<close>: every missing
  directory along the path is created, an existing directory is accepted, a
  regular file in the way raises. Directories created before a failure stay.
\<close>

fun make_dirs :: "string list \<Rightarrow> string list \<Rightarrow> unit prog" where
  "make_dirs cur [] w = (Returned (), w)"
| "make_dirs cur (c # cs) w =
     (if c = [] \<or> c = ''.'' then make_dirs cur cs w
      else if c = ''..'' then make_dirs (butlast cur) cs w
      else (case node_at w (cur @ [c]) of
              Some D \<Rightarrow> make_dirs (cur @ [c]) cs w
            | Some (F i) \<Rightarrow>
                (Raised (if cs = [] then FileExistsError else NotADirectoryError), w)
            | None \<Rightarrow> make_dirs (cur @ [c]) cs (add_entry (cur @ [c]) D w)))"

definition mkdir_p :: "string \<Rightarrow> unit prog" where
  "mkdir_p path w =
     (if path \<noteq> [] \<and> hd path = CHR ''/'' then make_dirs [] (split_on is_slash path) w
      else if is_dir w (cwd w) then make_dirs (cwd w) (split_on is_slash path) w
      else (Raised FileNotFoundError, w))"

text \<open>
  What the script cannot decide itself is a parameter: where the script file is
  installed, the name \<^verbatim>\<open>tempfile.mkdtemp\<close> picks (an absolute, normalised
  path, given by its components), and what starting a command does. A started
  process is seen by the script as the sequence of what each turn of the wait
  loop observes (the line read, and the exit status if the process has ended),
  and it leaves the file system in some state. \<^verbatim>\<open>Popen\<close> itself may raise.
\<close>

type_synonym observation = "string \<times> int option"

record env =
  script_dir :: string
  mkdtemp_name :: "world \<Rightarrow> string list"
  popen :: "string list \<Rightarrow> string option \<Rightarrow> world \<Rightarrow>
            error + (observation list \<times> (string list \<times> entry) list \<times> (nat \<times> string) list)"

definition abs_path :: "string list \<Rightarrow> string" where
  "abs_path q = (if q = [] then ''/'' else concat (map (\<lambda>c. CHR ''/'' # c) q))"

section \<open>The packaging script\<close>

text \<open>
  The definitions below follow \<^verbatim>\<open>libexec/create_package.py\<close> function by
  function. The \<^verbatim>\<open>logging\<close> calls only write to the log stream and are left out.
\<close>

definition MECAB_IPADIC_NEOLOGD_NAME :: string where
  "MECAB_IPADIC_NEOLOGD_NAME = ''mecab-ipadic-neologd''"

definition MECAB_IPADIC_NEOLOGD_SUMMARY :: string where
  "MECAB_IPADIC_NEOLOGD_SUMMARY =
     ''Neologism dictionary based on the language resources on the Web for mecab-ipadic''"

definition MECAB_IPADIC_NEOLOGD_LICENSE :: string where
  "MECAB_IPADIC_NEOLOGD_LICENSE = ''Apache-2.0''"

definition MECAB_IPADIC_NEOLOGD_VENDOR :: string where
  "MECAB_IPADIC_NEOLOGD_VENDOR = ''Toshinori Sato (@overlast) <overlasting@gmail.com>''"

definition MECAB_IPADIC_NEOLOGD_MAINTAINER :: string where
  "MECAB_IPADIC_NEOLOGD_MAINTAINER = ''Linas Valiukas <linas@mediacloud.org>''"

definition MECAB_IPADIC_NEOLOGD_URL :: string where
  "MECAB_IPADIC_NEOLOGD_URL = ''https://github.com/mediacloud/mecab-ipadic-neologd-prebuilt''"

definition MECAB_IPADIC_NEOLOGD_DEPENDS_MECAB_VERSION :: string where
  "MECAB_IPADIC_NEOLOGD_DEPENDS_MECAB_VERSION = ''0.996''"

definition MECAB_IPADIC_NEOLOGD_CHANGELOG_FILE :: string where
  "MECAB_IPADIC_NEOLOGD_CHANGELOG_FILE = ''ChangeLog''"

definition PATH_TO_ROOT :: "env \<Rightarrow> string" where
  "PATH_TO_ROOT ev = path_join (script_dir ev) ''..''"

definition MECAB_IPADIC_NEOLOGD_MISC_DOCS :: "env \<Rightarrow> string list" where
  "MECAB_IPADIC_NEOLOGD_MISC_DOCS ev =
     [path_join (PATH_TO_ROOT ev) ''README.md'',
      path_join (PATH_TO_ROOT ev) ''README.ja.md'',
      path_join (PATH_TO_ROOT ev) MECAB_IPADIC_NEOLOGD_CHANGELOG_FILE,
      path_join (PATH_TO_ROOT ev) ''COPYING'']"

text \<open>\<^verbatim>\<open>str(rc)\<close> for a Python int.\<close>

fun show_nat :: "nat \<Rightarrow> string" where
  "show_nat n =
     (if n < 10 then [''0123456789'' ! n]
      else show_nat (n div 10) @ [''0123456789'' ! (n mod 10)])"

definition show_int :: "int \<Rightarrow> string" where
  "show_int i = (if i < 0 then CHR ''-'' # show_nat (nat (- i)) else show_nat (nat i))"

text \<open>
  The wait loop of \<open>__run_command\<close>: each turn reads a line and leaves the loop
  when the line is empty and \<^verbatim>\<open>poll()\<close> gives an exit status. A process whose
  observations never meet that condition keeps the loop going for ever.
\<close>

fun read_until_exit :: "observation list \<Rightarrow> int option" where
  "read_until_exit [] = None"
| "read_until_exit ((output, status) # rest) =
     (if length output = 0 \<and> status \<noteq> None then status else read_until_exit rest)"

definition run_command :: "env \<Rightarrow> string list \<Rightarrow> string option \<Rightarrow> unit prog" where
  "run_command ev command dir w =
     (case popen ev command dir w of
        Inl e \<Rightarrow> (Raised e, w)
      | Inr (obs, entries', data') \<Rightarrow>
          (let w' = w\<lparr>entries := entries', data := data',
                       spawned := spawned w @ [(command, dir)]\<rparr>
           in case read_until_exit obs of
                None \<Rightarrow> (Blocked, w')
              | Some rc \<Rightarrow>
                  if rc > 0
                  then (Raised (MeCabPackageException
                          (''Process returned non-zero exit code '' @ show_int rc)), w')
                  else (Returned (), w')))"

definition temp_directory :: "env \<Rightarrow> string prog" where
  "temp_directory ev w =
     seq (os_mkdir (abs_path (mkdtemp_name ev w)))
         (\<lambda>_. ret (abs_path (mkdtemp_name ev w))) w"

text \<open>
  The two linking loops are the same in the three builders:
  \<^verbatim>\<open>for filename in os.listdir(input_dir): ...\<close> over the names listed, and
  \<^verbatim>\<open>for doc_file_path in MECAB_IPADIC_NEOLOGD_MISC_DOCS: ...\<close>.
\<close>

fun link_mecab_files :: "string \<Rightarrow> string \<Rightarrow> string list \<Rightarrow> unit prog" where
  "link_mecab_files input_dir target_dir [] = ret ()"
| "link_mecab_files input_dir target_dir (filename # rest) =
     (let full_filename = path_join input_dir filename in
      seq (os_path_isfile full_filename) (\<lambda>is_file.
      seq (if is_file then os_link full_filename (path_join target_dir filename) else ret ()) (\<lambda>_.
      link_mecab_files input_dir target_dir rest)))"

fun link_doc_files :: "string \<Rightarrow> string list \<Rightarrow> unit prog" where
  "link_doc_files target_dir [] = ret ()"
| "link_doc_files target_dir (doc_file_path # rest) =
     seq (os_link doc_file_path (path_join target_dir (basename doc_file_path))) (\<lambda>_.
     link_doc_files target_dir rest)"

definition create_tgz_package :: "env \<Rightarrow> string \<Rightarrow> string \<Rightarrow> string \<Rightarrow> string prog" where
  "create_tgz_package ev input_dir version revision =
     seq (temp_directory ev) (\<lambda>temp_dir.
     let mecab_dirname = MECAB_IPADIC_NEOLOGD_NAME @ ''-'' @ version @ ''-'' @ revision;
         temp_mecab_dir_path = path_join temp_dir mecab_dirname in
     seq (os_mkdir temp_mecab_dir_path) (\<lambda>_.
     seq (os_listdir input_dir) (\<lambda>filenames.
     seq (link_mecab_files input_dir temp_mecab_dir_path filenames) (\<lambda>_.
     seq (link_doc_files temp_mecab_dir_path (MECAB_IPADIC_NEOLOGD_MISC_DOCS ev)) (\<lambda>_.
     let tarball_filename = mecab_dirname @ ''.tgz'';
         temp_mecab_tarball_path = path_join temp_dir tarball_filename in
     seq (run_command ev [''tar'', ''-czvf'', temp_mecab_tarball_path, mecab_dirname]
            (Some temp_dir)) (\<lambda>_.
     seq (shutil_rmtree temp_mecab_dir_path) (\<lambda>_.
     ret temp_mecab_tarball_path)))))))"

definition fpm_common_flags :: "string \<Rightarrow> string \<Rightarrow> string list" where
  "fpm_common_flags version revision =
     [''--verbose'',
      ''--input-type'', ''dir'',
      ''--name'', MECAB_IPADIC_NEOLOGD_NAME,
      ''--version'', version,
      ''--iteration'', revision,
      ''--description'', MECAB_IPADIC_NEOLOGD_SUMMARY,
      ''--license'', MECAB_IPADIC_NEOLOGD_LICENSE,
      ''--vendor'', MECAB_IPADIC_NEOLOGD_VENDOR,
      ''--maintainer'', MECAB_IPADIC_NEOLOGD_MAINTAINER,
      ''--url'', MECAB_IPADIC_NEOLOGD_URL,
      ''--architecture'', ''all'',
      ''--prefix'', ''/'']"

definition create_deb_package :: "env \<Rightarrow> string \<Rightarrow> string \<Rightarrow> string \<Rightarrow> string prog" where
  "create_deb_package ev input_dir version revision =
     seq (temp_directory ev) (\<lambda>temp_dir.
     let deb_source_dir = path_join temp_dir ''deb'' in
     seq (os_mkdir deb_source_dir) (\<lambda>_.
     let deb_base_lib_dir = ''var/lib/mecab/dic/ipadic-neologd'';
         deb_base_doc_dir = ''usr/share/doc/mecab-ipadic-neologd'';
         lib_dir = path_join deb_source_dir deb_base_lib_dir in
     seq (mkdir_p lib_dir) (\<lambda>_.
     let doc_dir = path_join deb_source_dir deb_base_doc_dir in
     seq (mkdir_p doc_dir) (\<lambda>_.
     seq (os_listdir input_dir) (\<lambda>filenames.
     seq (link_mecab_files input_dir lib_dir filenames) (\<lambda>_.
     seq (link_doc_files doc_dir (MECAB_IPADIC_NEOLOGD_MISC_DOCS ev)) (\<lambda>_.
     let deb_name = MECAB_IPADIC_NEOLOGD_NAME @ ''_'' @ version @ ''-'' @ revision @ ''_all.deb'';
         deb_path = path_join temp_dir deb_name;
         after_install_path = path_join temp_dir ''after-install'' in
     seq (write_file after_install_path
            (''update-alternatives --install /var/lib/mecab/dic/debian mecab-dictionary /''
               @ deb_base_lib_dir @ '' 100'')) (\<lambda>_.
     let after_remove_path = path_join temp_dir ''after-remove'' in
     seq (write_file after_remove_path
            (''update-alternatives --remove mecab-dictionary /'' @ deb_base_lib_dir)) (\<lambda>_.
     let fpm_command = [''fpm''] @ fpm_common_flags version revision @
           [''--output-type'', ''deb'',
            ''--package'', deb_path,
            ''--chdir'', deb_source_dir,
            ''--depends'', ''mecab (>= '' @ MECAB_IPADIC_NEOLOGD_DEPENDS_MECAB_VERSION @ '')'',
            ''--category'', ''misc'',
            ''--deb-priority'', ''extra'',
            ''--deb-no-default-config-files'',
            ''--after-install'', after_install_path,
            ''--after-remove'', after_remove_path] in
     seq (run_command ev fpm_command None) (\<lambda>_.
     seq (shutil_rmtree deb_source_dir) (\<lambda>_.
     ret deb_path)))))))))))"

definition create_rpm_package :: "env \<Rightarrow> string \<Rightarrow> string \<Rightarrow> string \<Rightarrow> string prog" where
  "create_rpm_package ev input_dir version revision =
     seq (temp_directory ev) (\<lambda>temp_dir.
     let rpm_source_dir = path_join temp_dir ''rpm'' in
     seq (os_mkdir rpm_source_dir) (\<lambda>_.
     let lib_dir = path_join rpm_source_dir ''usr/lib64/mecab/dic/ipadic-neologd'' in
     seq (mkdir_p lib_dir) (\<lambda>_.
     let doc_dir = path_join rpm_source_dir
                     (''usr/share/doc/'' @ MECAB_IPADIC_NEOLOGD_NAME @ ''-'' @ version) in
     seq (mkdir_p doc_dir) (\<lambda>_.
     seq (os_listdir input_dir) (\<lambda>filenames.
     seq (link_mecab_files input_dir lib_dir filenames) (\<lambda>_.
     seq (link_doc_files doc_dir (MECAB_IPADIC_NEOLOGD_MISC_DOCS ev)) (\<lambda>_.
     let rpm_name = MECAB_IPADIC_NEOLOGD_NAME @ ''_'' @ version @ ''-'' @ revision @ ''_all.rpm'';
         rpm_path = path_join temp_dir rpm_name;
         fpm_command = [''fpm''] @ fpm_common_flags version revision @
           [''--output-type'', ''rpm'',
            ''--package'', rpm_path,
            ''--chdir'', rpm_source_dir,
            ''--depends'', ''mecab >= '' @ MECAB_IPADIC_NEOLOGD_DEPENDS_MECAB_VERSION,
            ''--category'', ''Applications/Text'',
            ''--rpm-os'', ''linux''] in
     seq (run_command ev fpm_command None) (\<lambda>_.
     seq (shutil_rmtree rpm_source_dir) (\<lambda>_.
     ret rpm_path)))))))))"

text \<open>
  The validation loop of \<open>create_package\<close>:
  \<^verbatim>\<open>for misc_doc_file in MECAB_IPADIC_NEOLOGD_MISC_DOCS: if not os.path.isfile(...): raise\<close>.
\<close>

fun check_misc_docs :: "string list \<Rightarrow> unit prog" where
  "check_misc_docs [] = ret ()"
| "check_misc_docs (misc_doc_file # rest) =
     seq (os_path_isfile misc_doc_file) (\<lambda>is_file.
     if \<not> is_file
     then raise (MeCabPackageException
            (''Misc. documentation file \"'' @ misc_doc_file @ ''\" does not exist.''))
     else check_misc_docs rest)"

text \<open>
  In the last check of \<open>create_package\<close> the exception is built and dropped,
  \<^verbatim>\<open>MeCabPackageException(...)\<close> without \<^verbatim>\<open>raise\<close>: \<open>dropped\<close> holds it and
  nothing uses it.
\<close>

definition create_package :: "env \<Rightarrow> string \<Rightarrow> string \<Rightarrow> string \<Rightarrow> string \<Rightarrow> string prog" where
  "create_package ev package_type input_dir version revision =
     seq (os_path_isfile (path_join input_dir ''sys.dic'')) (\<lambda>has_sys_dic.
     if \<not> has_sys_dic
     then raise (MeCabPackageException
            (''Input directory \"'' @ input_dir @ ''\" does not contain build MeCab dictionary.''))
     else
     seq (check_misc_docs (MECAB_IPADIC_NEOLOGD_MISC_DOCS ev)) (\<lambda>_.
     seq (if package_type = ''tgz'' then create_tgz_package ev input_dir version revision
          else if package_type = ''deb'' then create_deb_package ev input_dir version revision
          else if package_type = ''rpm'' then create_rpm_package ev input_dir version revision
          else raise (MeCabPackageException (''Unknown package type \"'' @ package_type @ ''\".'')))
       (\<lambda>package_path.
     seq (os_path_isfile package_path) (\<lambda>is_file.
     let dropped = (if \<not> is_file
                    then [MeCabPackageException
                            (''Created package \"'' @ package_path @ ''\" does not exist.'')]
                    else [])
     in ret package_path))))"

section \<open>Well-formed worlds and what staging adds\<close>

text \<open>
  The notions the theorems are stated with. A name is valid if it can be a
  directory entry: not empty, not \<open>.\<close> or \<open>..\<close>, no \<open>/\<close> in it. A string is
  plain if it has no \<open>/\<close>.
\<close>

definition valid_name :: "string \<Rightarrow> bool" where
  "valid_name c \<longleftrightarrow> c \<noteq> [] \<and> c \<noteq> ''.'' \<and> c \<noteq> ''..'' \<and> CHR ''/'' \<notin> set c"

definition valid_names :: "string list \<Rightarrow> bool" where
  "valid_names q \<longleftrightarrow> list_all valid_name q"




text \<open>
  \<open>linked w p\<close> is the regular file a hard link to the path \<open>p\<close> would share
  its inode with, if \<open>p\<close> names one.
\<close>

definition file_only :: "entry option \<Rightarrow> entry option" where
  "file_only x = (case x of Some (F i) \<Rightarrow> Some (F i) | _ \<Rightarrow> None)"




text \<open>
  The nodes staging adds: the directories from \<open>cur\<close> (excluded) down to
  \<open>cur @ cs\<close>, the regular files of the input directory by name, the
  documentation files by base name (the first of the list with that base
  name), and a map of names placed as the entries of a directory \<open>q\<close>.
\<close>

definition between :: "string list \<Rightarrow> string list \<Rightarrow> string list \<Rightarrow> bool" where
  "between cur cs k \<longleftrightarrow> strict_prefix cur k \<and> prefix k (cur @ cs)"





section \<open>What a builder leaves alone\<close>



definition near :: "string list \<Rightarrow> string \<Rightarrow> string list \<Rightarrow> bool" where
  "near tc s k \<longleftrightarrow> prefix k tc \<or> prefix (tc @ [s]) k"



section \<open>A concrete installation\<close>

text \<open>
  A small file system on which the theorems below are exercised: a built
  dictionary in \<open>/in\<close> (two regular files and a subdirectory), the script
  installed in \<open>/repo/libexec\<close> with the four documentation files in \<open>/repo\<close>,
  and \<open>/tmp\<close>. In \<open>demo_env rc\<close> the temporary directory is always
  \<open>/tmp/tmpab12\<close> and every command prints one line, touches no file and ends
  with exit status \<open>rc\<close>. \<open>demo_world_no_docs\<close> lacks two of the documentation
  files.
\<close>

definition demo_world :: world where
  "demo_world =
     \<lparr>entries =
        [([''in''], D), ([''in'', ''sys.dic''], F 1), ([''in'', ''matrix.bin''], F 2),
         ([''in'', ''sub''], D), ([''repo''], D), ([''repo'', ''libexec''], D),
         ([''repo'', ''README.md''], F 3), ([''repo'', ''README.ja.md''], F 4),
         ([''repo'', ''ChangeLog''], F 5), ([''repo'', ''COPYING''], F 6), ([''tmp''], D)],
      data = [], cwd = [], spawned = []\<rparr>"

definition demo_world_no_docs :: world where
  "demo_world_no_docs =
     \<lparr>entries =
        [([''in''], D), ([''in'', ''sys.dic''], F 1), ([''in'', ''matrix.bin''], F 2),
         ([''repo''], D), ([''repo'', ''libexec''], D),
         ([''repo'', ''README.md''], F 3), ([''repo'', ''ChangeLog''], F 5), ([''tmp''], D)],
      data = [], cwd = [], spawned = []\<rparr>"

definition demo_env :: "int \<Rightarrow> env" where
  "demo_env rc =
     \<lparr>script_dir = ''/repo/libexec'',
      mkdtemp_name = (\<lambda>w. [''tmp'', ''tmpab12'']),
      popen = (\<lambda>command dir w. Inr ([(''building'', None), ([], Some rc)], entries w, data w))\<rparr>"


section \<open>Properties of the string functions\<close>






section \<open>Validation and dispatch in create_package\<close>

lemma seq_ret [simp]: "seq (ret x) f w = f x w"
  by (simp add: seq_def ret_def)

lemma seq_raise [simp]: "seq (raise e) f w = (Raised e, w)"
  by (simp add: seq_def raise_def)

lemma seq_isfile [simp]: "seq (os_path_isfile p) f w = f (isfile w p) w"
  by (simp add: seq_def os_path_isfile_def)

lemma seq_Returned:
  "seq m f w = (Returned y, w') \<longleftrightarrow> (\<exists>x w1. m w = (Returned x, w1) \<and> f x w1 = (Returned y, w'))"
  by (cases "m w") (auto simp: seq_def split: outcome.splits)

lemma seq_step: "m w = (Returned x, w1) \<Longrightarrow> seq m f w = f x w1"
  by (simp add: seq_def)

lemma seq_raised: "m w = (Raised e, w1) \<Longrightarrow> seq m f w = (Raised e, w1)"
  by (simp add: seq_def)

lemma seq_blocked: "m w = (Blocked, w1) \<Longrightarrow> seq m f w = (Blocked, w1)"
  by (simp add: seq_def)

lemma check_misc_docs_ok:
  "\<forall>d\<in>set ds. isfile w d \<Longrightarrow> check_misc_docs ds w = (Returned (), w)"
  by (induction ds) (simp_all add: ret_def)

lemma check_misc_docs_first_missing:
  "\<forall>d\<in>set ds1. isfile w d \<Longrightarrow> \<not> isfile w d \<Longrightarrow>
   check_misc_docs (ds1 @ d # ds2) w =
     (Raised (MeCabPackageException (''Misc. documentation file \"'' @ d @ ''\" does not exist.'')), w)"
  by (induction ds1) (simp_all add: raise_def)

lemma first_missing_split:
  "\<exists>d\<in>set ds. \<not> P d \<Longrightarrow> \<exists>ds1 d ds2. ds = ds1 @ d # ds2 \<and> (\<forall>x\<in>set ds1. P x) \<and> \<not> P d"
proof (induction ds)
  case Nil
  then show ?case by simp
next
  case (Cons a ds)
  show ?case
  proof (cases "P a")
    case False
    then have "a # ds = [] @ a # ds \<and> (\<forall>x\<in>set []. P x) \<and> \<not> P a" by simp
    then show ?thesis by blast
  next
    case True
    with Cons.prems have "\<exists>d\<in>set ds. \<not> P d" by auto
    from Cons.IH [OF this] obtain ds1 d ds2
      where "ds = ds1 @ d # ds2" "\<forall>x\<in>set ds1. P x" "\<not> P d" by blast
    with True have "a # ds = (a # ds1) @ d # ds2 \<and> (\<forall>x\<in>set (a # ds1). P x) \<and> \<not> P d" by simp
    then show ?thesis by blast
  qed
qed

text \<open>
  Claim C1. Whatever the package type, version and revision: when \<open>sys.dic\<close> is
  not a regular file in \<open>input_dir\<close>, or some documentation file of the list is
  not an existing regular file, \<open>create_package\<close> raises a
  \<open>MeCabPackageException\<close> whose message names the input directory (missing
  dictionary) or the missing documentation file, and the world is exactly as it
  was: no directory has been created and no subprocess has been started.
\<close>

theorem create_package_missing_input:
  assumes "\<not> isfile w (path_join input_dir ''sys.dic'')
           \<or> (\<exists>d\<in>set (MECAB_IPADIC_NEOLOGD_MISC_DOCS ev). \<not> isfile w d)"
  shows "\<exists>msg. create_package ev package_type input_dir version revision w
             = (Raised (MeCabPackageException msg), w)
           \<and> ((\<not> isfile w (path_join input_dir ''sys.dic'') \<and>
                 msg = ''Input directory \"'' @ input_dir @ ''\" does not contain build MeCab dictionary.'')
              \<or> (\<exists>d\<in>set (MECAB_IPADIC_NEOLOGD_MISC_DOCS ev). \<not> isfile w d \<and>
                   msg = ''Misc. documentation file \"'' @ d @ ''\" does not exist.''))"
proof (cases "isfile w (path_join input_dir ''sys.dic'')")
  case False
  then show ?thesis by (simp add: create_package_def raise_def)
next
  case True
  with assms have "\<exists>d\<in>set (MECAB_IPADIC_NEOLOGD_MISC_DOCS ev). \<not> isfile w d" by simp
  from first_missing_split [where P = "isfile w", OF this] obtain ds1 d ds2
    where ds: "MECAB_IPADIC_NEOLOGD_MISC_DOCS ev = ds1 @ d # ds2"
      and ok: "\<forall>x\<in>set ds1. isfile w x" and bad: "\<not> isfile w d" by blast
  have "d \<in> set (MECAB_IPADIC_NEOLOGD_MISC_DOCS ev)" by (simp add: ds)
  moreover have "create_package ev package_type input_dir version revision w
      = (Raised (MeCabPackageException (''Misc. documentation file \"'' @ d @ ''\" does not exist.'')), w)"
  proof -
    have chk: "check_misc_docs (MECAB_IPADIC_NEOLOGD_MISC_DOCS ev) w
      = (Raised (MeCabPackageException (''Misc. documentation file \"'' @ d @ ''\" does not exist.'')), w)"
      unfolding ds by (rule check_misc_docs_first_missing [OF ok bad])
    show ?thesis
      by (simp add: create_package_def True
            seq_raised [where m = "check_misc_docs (MECAB_IPADIC_NEOLOGD_MISC_DOCS ev)", OF chk])
  qed
  ultimately show ?thesis using bad by blast
qed

lemma suffix_path_join: "suffix b (path_join a b)"
  by (auto simp: path_join_def suffix_def intro: exI [of _ "a @ [CHR ''/'']"])

text \<open>
  Claim C5. For every version and revision, a path returned by
  \<open>create_tgz_package\<close> ends in \<open>mecab-ipadic-neologd-<version>-<revision>.tgz\<close>,
  one returned by \<open>create_deb_package\<close> in
  \<open>mecab-ipadic-neologd_<version>-<revision>_all.deb\<close>, and one returned by
  \<open>create_rpm_package\<close> in \<open>mecab-ipadic-neologd_<version>-<revision>_all.rpm\<close>.
\<close>

theorem package_file_names:
  "(create_tgz_package ev input_dir version revision w = (Returned p, w') \<longrightarrow>
      suffix (MECAB_IPADIC_NEOLOGD_NAME @ ''-'' @ version @ ''-'' @ revision @ ''.tgz'') p)
   \<and> (create_deb_package ev input_dir version revision w = (Returned p, w') \<longrightarrow>
      suffix (MECAB_IPADIC_NEOLOGD_NAME @ ''_'' @ version @ ''-'' @ revision @ ''_all.deb'') p)
   \<and> (create_rpm_package ev input_dir version revision w = (Returned p, w') \<longrightarrow>
      suffix (MECAB_IPADIC_NEOLOGD_NAME @ ''_'' @ version @ ''-'' @ revision @ ''_all.rpm'') p)"
proof (intro conjI impI)
  assume "create_tgz_package ev input_dir version revision w = (Returned p, w')"
  then obtain temp_dir where
    "p = path_join temp_dir ((MECAB_IPADIC_NEOLOGD_NAME @ ''-'' @ version @ ''-'' @ revision) @ ''.tgz'')"
    unfolding create_tgz_package_def Let_def seq_Returned ret_def by blast
  then show "suffix (MECAB_IPADIC_NEOLOGD_NAME @ ''-'' @ version @ ''-'' @ revision @ ''.tgz'') p"
    using suffix_path_join [of "(MECAB_IPADIC_NEOLOGD_NAME @ ''-'' @ version @ ''-'' @ revision) @ ''.tgz''" temp_dir]
    by simp
next
  assume "create_deb_package ev input_dir version revision w = (Returned p, w')"
  then obtain temp_dir where
    "p = path_join temp_dir (MECAB_IPADIC_NEOLOGD_NAME @ ''_'' @ version @ ''-'' @ revision @ ''_all.deb'')"
    unfolding create_deb_package_def Let_def seq_Returned ret_def by blast
  then show "suffix (MECAB_IPADIC_NEOLOGD_NAME @ ''_'' @ version @ ''-'' @ revision @ ''_all.deb'') p"
    by (simp add: suffix_path_join)
next
  assume "create_rpm_package ev input_dir version revision w = (Returned p, w')"
  then obtain temp_dir where
    "p = path_join temp_dir (MECAB_IPADIC_NEOLOGD_NAME @ ''_'' @ version @ ''-'' @ revision @ ''_all.rpm'')"
    unfolding create_rpm_package_def Let_def seq_Returned ret_def by blast
  then show "suffix (MECAB_IPADIC_NEOLOGD_NAME @ ''_'' @ version @ ''-'' @ revision @ ''_all.rpm'') p"
    by (simp add: suffix_path_join)
qed

text \<open>
  Claim C9. \<open>create_package\<close> checks in a fixed order: first \<open>sys.dic\<close>, then the
  documentation files in list order, then the package type. The error raised is
  that of the first check that fails: a missing \<open>sys.dic\<close> gives the error naming
  \<open>input_dir\<close> whatever else is wrong; with \<open>sys.dic\<close> present, the first
  documentation file of the list that is missing is the one named, whatever the
  package type; and only when all files are present does a type other than
  \<open>tgz\<close>, \<open>deb\<close>, \<open>rpm\<close> give the unknown-package-type error. In each case the
  world is unchanged.
\<close>

theorem create_package_check_order:
  "(\<not> isfile w (path_join input_dir ''sys.dic'') \<longrightarrow>
      create_package ev package_type input_dir version revision w =
        (Raised (MeCabPackageException
          (''Input directory \"'' @ input_dir @ ''\" does not contain build MeCab dictionary.'')), w))
   \<and> (isfile w (path_join input_dir ''sys.dic'')
        \<and> MECAB_IPADIC_NEOLOGD_MISC_DOCS ev = ds1 @ d # ds2
        \<and> (\<forall>x\<in>set ds1. isfile w x) \<and> \<not> isfile w d \<longrightarrow>
      create_package ev package_type input_dir version revision w =
        (Raised (MeCabPackageException
          (''Misc. documentation file \"'' @ d @ ''\" does not exist.'')), w))
   \<and> (isfile w (path_join input_dir ''sys.dic'')
        \<and> (\<forall>x\<in>set (MECAB_IPADIC_NEOLOGD_MISC_DOCS ev). isfile w x)
        \<and> package_type \<noteq> ''tgz'' \<and> package_type \<noteq> ''deb'' \<and> package_type \<noteq> ''rpm'' \<longrightarrow>
      create_package ev package_type input_dir version revision w =
        (Raised (MeCabPackageException (''Unknown package type \"'' @ package_type @ ''\".'')), w))"
proof (intro conjI impI)
  assume "\<not> isfile w (path_join input_dir ''sys.dic'')"
  then show "create_package ev package_type input_dir version revision w =
        (Raised (MeCabPackageException
          (''Input directory \"'' @ input_dir @ ''\" does not contain build MeCab dictionary.'')), w)"
    by (simp add: create_package_def raise_def)
next
  assume a: "isfile w (path_join input_dir ''sys.dic'')
        \<and> MECAB_IPADIC_NEOLOGD_MISC_DOCS ev = ds1 @ d # ds2
        \<and> (\<forall>x\<in>set ds1. isfile w x) \<and> \<not> isfile w d"
  then have chk: "check_misc_docs (MECAB_IPADIC_NEOLOGD_MISC_DOCS ev) w
      = (Raised (MeCabPackageException (''Misc. documentation file \"'' @ d @ ''\" does not exist.'')), w)"
    using check_misc_docs_first_missing [of ds1 w d ds2] by simp
  show "create_package ev package_type input_dir version revision w =
        (Raised (MeCabPackageException
          (''Misc. documentation file \"'' @ d @ ''\" does not exist.'')), w)"
    using conjunct1 [OF a] by (simp add: create_package_def
            seq_raised [where m = "check_misc_docs (MECAB_IPADIC_NEOLOGD_MISC_DOCS ev)", OF chk])
next
  assume a: "isfile w (path_join input_dir ''sys.dic'')
        \<and> (\<forall>x\<in>set (MECAB_IPADIC_NEOLOGD_MISC_DOCS ev). isfile w x)
        \<and> package_type \<noteq> ''tgz'' \<and> package_type \<noteq> ''deb'' \<and> package_type \<noteq> ''rpm''"
  then have chk: "check_misc_docs (MECAB_IPADIC_NEOLOGD_MISC_DOCS ev) w = (Returned (), w)"
    by (simp add: check_misc_docs_ok)
  show "create_package ev package_type input_dir version revision w =
        (Raised (MeCabPackageException (''Unknown package type \"'' @ package_type @ ''\".'')), w)"
    using a by (simp add: create_package_def raise_def
            seq_step [where m = "check_misc_docs (MECAB_IPADIC_NEOLOGD_MISC_DOCS ev)", OF chk])
qed

text \<open>
  Claim C4. For each of the package types \<open>tgz\<close>, \<open>deb\<close> and \<open>rpm\<close>: when the
  inputs are valid and the builder of that type returns a path (so the packaging
  tool reported success) at which there is no regular file afterwards,
  \<open>create_package\<close> still returns that path normally; the exception built for
  the missing file is never raised.
\<close>

theorem create_package_missing_artifact_not_raised:
  assumes "isfile w (path_join input_dir ''sys.dic'')"
    and "\<forall>d\<in>set (MECAB_IPADIC_NEOLOGD_MISC_DOCS ev). isfile w d"
    and "(package_type = ''tgz'' \<and> create_tgz_package ev input_dir version revision w = (Returned p, w'))
       \<or> (package_type = ''deb'' \<and> create_deb_package ev input_dir version revision w = (Returned p, w'))
       \<or> (package_type = ''rpm'' \<and> create_rpm_package ev input_dir version revision w = (Returned p, w'))"
    and "\<not> isfile w' p"
  shows "create_package ev package_type input_dir version revision w = (Returned p, w')"
proof -
  have chk: "check_misc_docs (MECAB_IPADIC_NEOLOGD_MISC_DOCS ev) w = (Returned (), w)"
    using assms(2) by (simp add: check_misc_docs_ok)
  have "seq (if package_type = ''tgz'' then create_tgz_package ev input_dir version revision
          else if package_type = ''deb'' then create_deb_package ev input_dir version revision
          else if package_type = ''rpm'' then create_rpm_package ev input_dir version revision
          else raise (MeCabPackageException (''Unknown package type \"'' @ package_type @ ''\".''))) f w
        = f p w'" for f :: "string \<Rightarrow> string prog"
    using assms(3) by (auto simp: seq_def)
  then show ?thesis
    using assms(1)
    by (simp add: create_package_def ret_def
          seq_step [where m = "check_misc_docs (MECAB_IPADIC_NEOLOGD_MISC_DOCS ev)", OF chk])
qed

section \<open>Paths, operations and staging\<close>

lemma valid_names_simps [simp]:
  "valid_names []"
  "valid_names (c # q) \<longleftrightarrow> valid_name c \<and> valid_names q"
  "valid_names (q @ q') \<longleftrightarrow> valid_names q \<and> valid_names q'"
  by (auto simp: valid_names_def)





lemma is_slash_slash [simp]: "is_slash (CHR ''/'')"
  by (simp add: is_slash_def)




lemma is_dir_root [simp]: "is_dir w []"
  by (simp add: is_dir_def node_at_def)


lemma abs_path_nonempty [simp]: "abs_path q \<noteq> []"
  by (cases q) (simp_all add: abs_path_def)












lemma file_only_simps [simp]:
  "file_only None = None" "file_only (Some D) = None" "file_only (Some (F i)) = Some (F i)"
  by (simp_all add: file_only_def)



lemma add_entry_fields [simp]:
  "data (add_entry q e w) = data w" "cwd (add_entry q e w) = cwd w"
  "spawned (add_entry q e w) = spawned w" "entries (add_entry q e w) = entries w @ [(q, e)]"
  by (simp_all add: add_entry_def)















lemma between_Nil [simp]: "\<not> between cur [] k"
  by (auto simp: between_def)








































section \<open>Removal of the staging tree\<close>



section \<open>The input directory is left alone\<close>




















lemma remove_subtree_fields [simp]:
  "data (remove_subtree q w) = data w" "cwd (remove_subtree q w) = cwd w"
  "spawned (remove_subtree q w) = spawned w"
  by (simp_all add: remove_subtree_def)

















lemma near_simps [simp]: "near tc s tc" "near tc s (tc @ [s])" "near tc s (tc @ s # xs)"
  "near tc s (tc @ s # xs @ ys)"
  by (simp_all add: near_def prefix_def)









section \<open>The theorems on the concrete installation\<close>

lemma returned_pair: "fst r = Returned x \<Longrightarrow> r = (Returned x, snd r)"
  by (cases r) simp

lemma demo_tgz:
  "fst (create_tgz_package (demo_env 0) ''/in'' ''20170814'' ''1'' demo_world)
     = Returned ''/tmp/tmpab12/mecab-ipadic-neologd-20170814-1.tgz''"
  by code_simp

lemma demo_deb:
  "fst (create_deb_package (demo_env 0) ''/in'' ''20170814'' ''1'' demo_world)
     = Returned ''/tmp/tmpab12/mecab-ipadic-neologd_20170814-1_all.deb''"
  by code_simp

lemma demo_rpm:
  "fst (create_rpm_package (demo_env 0) ''/in'' ''20170814'' ''1'' demo_world)
     = Returned ''/tmp/tmpab12/mecab-ipadic-neologd_20170814-1_all.rpm''"
  by code_simp

theorem create_package_missing_input_witness:
  "\<not> isfile demo_world_no_docs ''/repo/libexec/../README.ja.md''
   \<and> (\<exists>msg. create_package (demo_env 0) ''deb'' ''/in'' ''20170814'' ''1'' demo_world_no_docs
             = (Raised (MeCabPackageException msg), demo_world_no_docs)
           \<and> ((\<not> isfile demo_world_no_docs (path_join ''/in'' ''sys.dic'') \<and>
                 msg = ''Input directory \"'' @ ''/in'' @ ''\" does not contain build MeCab dictionary.'')
              \<or> (\<exists>d\<in>set (MECAB_IPADIC_NEOLOGD_MISC_DOCS (demo_env 0)). \<not> isfile demo_world_no_docs d \<and>
                   msg = ''Misc. documentation file \"'' @ d @ ''\" does not exist.'')))"
proof (rule conjI)
  show "\<not> isfile demo_world_no_docs ''/repo/libexec/../README.ja.md''"
    by code_simp
  have h: "\<not> isfile demo_world_no_docs (path_join ''/in'' ''sys.dic'')
      \<or> (\<exists>d\<in>set (MECAB_IPADIC_NEOLOGD_MISC_DOCS (demo_env 0)). \<not> isfile demo_world_no_docs d)"
    by code_simp
  show "\<exists>msg. create_package (demo_env 0) ''deb'' ''/in'' ''20170814'' ''1'' demo_world_no_docs
             = (Raised (MeCabPackageException msg), demo_world_no_docs)
           \<and> ((\<not> isfile demo_world_no_docs (path_join ''/in'' ''sys.dic'') \<and>
                 msg = ''Input directory \"'' @ ''/in'' @ ''\" does not contain build MeCab dictionary.'')
              \<or> (\<exists>d\<in>set (MECAB_IPADIC_NEOLOGD_MISC_DOCS (demo_env 0)). \<not> isfile demo_world_no_docs d \<and>
                   msg = ''Misc. documentation file \"'' @ d @ ''\" does not exist.''))"
    by (rule create_package_missing_input [OF h])
qed

theorem package_file_names_witness:
  "create_tgz_package (demo_env 0) ''/in'' ''20170814'' ''1'' demo_world
     = (Returned ''/tmp/tmpab12/mecab-ipadic-neologd-20170814-1.tgz'',
        snd (create_tgz_package (demo_env 0) ''/in'' ''20170814'' ''1'' demo_world))
   \<and> suffix (MECAB_IPADIC_NEOLOGD_NAME @ ''-'' @ ''20170814'' @ ''-'' @ ''1'' @ ''.tgz'')
        ''/tmp/tmpab12/mecab-ipadic-neologd-20170814-1.tgz''
   \<and> create_deb_package (demo_env 0) ''/in'' ''20170814'' ''1'' demo_world
     = (Returned ''/tmp/tmpab12/mecab-ipadic-neologd_20170814-1_all.deb'',
        snd (create_deb_package (demo_env 0) ''/in'' ''20170814'' ''1'' demo_world))
   \<and> suffix (MECAB_IPADIC_NEOLOGD_NAME @ ''_'' @ ''20170814'' @ ''-'' @ ''1'' @ ''_all.deb'')
        ''/tmp/tmpab12/mecab-ipadic-neologd_20170814-1_all.deb''
   \<and> create_rpm_package (demo_env 0) ''/in'' ''20170814'' ''1'' demo_world
     = (Returned ''/tmp/tmpab12/mecab-ipadic-neologd_20170814-1_all.rpm'',
        snd (create_rpm_package (demo_env 0) ''/in'' ''20170814'' ''1'' demo_world))
   \<and> suffix (MECAB_IPADIC_NEOLOGD_NAME @ ''_'' @ ''20170814'' @ ''-'' @ ''1'' @ ''_all.rpm'')
        ''/tmp/tmpab12/mecab-ipadic-neologd_20170814-1_all.rpm''"
proof -
  note t = returned_pair [OF demo_tgz]
  note d = returned_pair [OF demo_deb]
  note r = returned_pair [OF demo_rpm]
  from t d r
    package_file_names [THEN conjunct1, THEN mp, OF t]
    package_file_names [THEN conjunct2, THEN conjunct1, THEN mp, OF d]
    package_file_names [THEN conjunct2, THEN conjunct2, THEN mp, OF r]
  show ?thesis by blast
qed

theorem create_package_check_order_witness:
  "\<not> isfile demo_world_no_docs (path_join ''/nowhere'' ''sys.dic'')
   \<and> create_package (demo_env 0) ''zip'' ''/nowhere'' ''20170814'' ''1'' demo_world_no_docs =
        (Raised (MeCabPackageException
          (''Input directory \"'' @ ''/nowhere'' @ ''\" does not contain build MeCab dictionary.'')),
         demo_world_no_docs)
   \<and> (isfile demo_world_no_docs (path_join ''/in'' ''sys.dic'')
        \<and> MECAB_IPADIC_NEOLOGD_MISC_DOCS (demo_env 0) =
            [''/repo/libexec/../README.md''] @ ''/repo/libexec/../README.ja.md''
              # [''/repo/libexec/../ChangeLog'', ''/repo/libexec/../COPYING'']
        \<and> isfile demo_world_no_docs ''/repo/libexec/../README.md''
        \<and> \<not> isfile demo_world_no_docs ''/repo/libexec/../README.ja.md'')
   \<and> create_package (demo_env 0) ''zip'' ''/in'' ''20170814'' ''1'' demo_world_no_docs =
        (Raised (MeCabPackageException
          (''Misc. documentation file \"'' @ ''/repo/libexec/../README.ja.md'' @ ''\" does not exist.'')),
         demo_world_no_docs)
   \<and> (isfile demo_world (path_join ''/in'' ''sys.dic'')
        \<and> list_all (isfile demo_world) (MECAB_IPADIC_NEOLOGD_MISC_DOCS (demo_env 0))
        \<and> ''zip'' \<noteq> ''tgz'' \<and> ''zip'' \<noteq> ''deb'' \<and> ''zip'' \<noteq> ''rpm'')
   \<and> create_package (demo_env 0) ''zip'' ''/in'' ''20170814'' ''1'' demo_world =
        (Raised (MeCabPackageException (''Unknown package type \"'' @ ''zip'' @ ''\".'')), demo_world)"
proof -
  have a: "\<not> isfile demo_world_no_docs (path_join ''/nowhere'' ''sys.dic'')"
    by code_simp
  have b: "isfile demo_world_no_docs (path_join ''/in'' ''sys.dic'')
        \<and> MECAB_IPADIC_NEOLOGD_MISC_DOCS (demo_env 0) =
            [''/repo/libexec/../README.md''] @ ''/repo/libexec/../README.ja.md''
              # [''/repo/libexec/../ChangeLog'', ''/repo/libexec/../COPYING'']
        \<and> (\<forall>x\<in>set [''/repo/libexec/../README.md'']. isfile demo_world_no_docs x)
        \<and> \<not> isfile demo_world_no_docs ''/repo/libexec/../README.ja.md''"
    by code_simp
  have c: "isfile demo_world (path_join ''/in'' ''sys.dic'')
        \<and> (\<forall>x\<in>set (MECAB_IPADIC_NEOLOGD_MISC_DOCS (demo_env 0)). isfile demo_world x)
        \<and> ''zip'' \<noteq> ''tgz'' \<and> ''zip'' \<noteq> ''deb'' \<and> ''zip'' \<noteq> ''rpm''"
    by code_simp
  from a b c
    create_package_check_order [THEN conjunct1, THEN mp, OF a]
    create_package_check_order [THEN conjunct2, THEN conjunct1, THEN mp, OF b]
    create_package_check_order [THEN conjunct2, THEN conjunct2, THEN mp, OF c]
  show ?thesis by (simp add: list_all_iff)
qed

theorem create_package_missing_artifact_not_raised_witness:
  "isfile demo_world (path_join ''/in'' ''sys.dic'')
   \<and> list_all (isfile demo_world) (MECAB_IPADIC_NEOLOGD_MISC_DOCS (demo_env 0))
   \<and> create_tgz_package (demo_env 0) ''/in'' ''20170814'' ''1'' demo_world
       = (Returned ''/tmp/tmpab12/mecab-ipadic-neologd-20170814-1.tgz'',
          snd (create_tgz_package (demo_env 0) ''/in'' ''20170814'' ''1'' demo_world))
   \<and> \<not> isfile (snd (create_tgz_package (demo_env 0) ''/in'' ''20170814'' ''1'' demo_world))
          ''/tmp/tmpab12/mecab-ipadic-neologd-20170814-1.tgz''
   \<and> create_package (demo_env 0) ''tgz'' ''/in'' ''20170814'' ''1'' demo_world
       = (Returned ''/tmp/tmpab12/mecab-ipadic-neologd-20170814-1.tgz'',
          snd (create_tgz_package (demo_env 0) ''/in'' ''20170814'' ''1'' demo_world))"
proof -
  have a: "isfile demo_world (path_join ''/in'' ''sys.dic'')" by code_simp
  have b: "\<forall>d\<in>set (MECAB_IPADIC_NEOLOGD_MISC_DOCS (demo_env 0)). isfile demo_world d"
    by code_simp
  note t = returned_pair [OF demo_tgz]
  have d: "\<not> isfile (snd (create_tgz_package (demo_env 0) ''/in'' ''20170814'' ''1'' demo_world))
          ''/tmp/tmpab12/mecab-ipadic-neologd-20170814-1.tgz''"
    by code_simp
  have "create_package (demo_env 0) ''tgz'' ''/in'' ''20170814'' ''1'' demo_world
       = (Returned ''/tmp/tmpab12/mecab-ipadic-neologd-20170814-1.tgz'',
          snd (create_tgz_package (demo_env 0) ''/in'' ''20170814'' ''1'' demo_world))"
    by (rule create_package_missing_artifact_not_raised [OF a b _ d]) (simp add: t [symmetric])
  with a b t d show ?thesis by (simp add: list_all_iff)
qed







section \<open>The process runner\<close>

lemma run_command_status:
  assumes "popen ev command dir w = Inr (obs, es, ds)" and "read_until_exit obs = Some rc"
  shows "fst (run_command ev command dir w) =
           (if rc > 0
            then Raised (MeCabPackageException (''Process returned non-zero exit code '' @ show_int rc))
            else Returned ())"
  using assms by (simp add: run_command_def Let_def)

text \<open>
  Claim C3 says that the process runner returns normally exactly when the exit
  status is 0 and raises for every other status. The code tests \<^verbatim>\<open>rc > 0\<close>:
  a process ended by a signal has a negative status (\<open>-9\<close> for SIGKILL), for
  which \<open>run_command\<close> returns normally and the builder goes on to clean up and
  return the package path. A positive status raises with the status in the
  message, as the claim says.
\<close>

theorem run_command_negative_status_returns:
  "read_until_exit [(''building'', None), ([], Some (- 9))] = Some (- 9)
   \<and> fst (run_command (demo_env (- 9)) [''fpm''] None demo_world) = Returned ()
   \<and> fst (create_package (demo_env (- 9)) ''deb'' ''/in'' ''20170814'' ''1'' demo_world)
       = Returned ''/tmp/tmpab12/mecab-ipadic-neologd_20170814-1_all.deb''
   \<and> fst (run_command (demo_env 1) [''fpm''] None demo_world)
       = Raised (MeCabPackageException ''Process returned non-zero exit code 1'')"
  by code_simp

end
